theory Spec2Isabelle
  imports Complex_Main
begin

section \<open>Python exceptions\<close>

text \<open>
  The scripts signal every failure with an exception. Only classes below \<open>Exception\<close>
  are modelled (a \<open>KeyboardInterrupt\<close> or \<open>SystemExit\<close> is no result of any input).
  \<open>EmptyDataError\<close> is pandas' \<open>pandas.errors.EmptyDataError\<close>, a subclass of
  \<open>ValueError\<close>; \<open>FileNotFoundError\<close> is a subclass of \<open>OSError\<close>. The scripts name
  only \<open>FileNotFoundError\<close>, \<open>ValueError\<close>, \<open>EmptyDataError\<close> and \<open>Exception\<close> in their
  handlers, so no other subclass relation matters.
\<close>

datatype exc_class =
  FileNotFoundError | OSError | ValueError | EmptyDataError
  | NameError | KeyError | TypeError | RuntimeError | OverflowError

text \<open>What the exception's message says, as far as the scripts build it themselves.\<close>

datatype exc_detail =
  NoSuchCsv string                             \<comment> \<open>the path that does not exist\<close>
  | ColumnsMissing "string list"               \<comment> \<open>\<open>check_and_load_csv\<close>: the missing columns\<close>
  | ColumnsMissingOf "string list" "string list" \<comment> \<open>inline check: missing, required\<close>
  | EmptyCsv string                            \<comment> \<open>the path of the empty file\<close>
  | NotDefined string                          \<comment> \<open>the unbound name\<close>
  | Library string                             \<comment> \<open>a message of pandas, numpy or matplotlib\<close>

type_synonym pyexc = "exc_class \<times> exc_detail"

fun issubclass :: "exc_class \<Rightarrow> exc_class \<Rightarrow> bool" where
  "issubclass EmptyDataError ValueError = True"
| "issubclass FileNotFoundError OSError = True"
| "issubclass c d = (c = d)"

definition isinstance :: "pyexc \<Rightarrow> exc_class \<Rightarrow> bool" where
  "isinstance e c = issubclass (fst e) c"

section \<open>Tables and CSV files\<close>

text \<open>
  A pandas column is an array of one dtype: \<open>int64\<close> when every cell of the CSV column
  reads as an integer, \<open>float64\<close> when every cell reads as a number and one has a
  fraction, \<open>object\<close> (strings) otherwise. Floats are idealised as reals. A table is
  its named columns in file order.
\<close>

datatype ndarray = IntArr "int list" | FloatArr "real list"

datatype column = Numeric ndarray | Object "string list"

type_synonym dataframe = "(string \<times> column) list"

definition columns :: "dataframe \<Rightarrow> string list" where
  "columns df = map fst df"

text \<open>
  What is stored at a path: nothing, an empty file, a file pandas cannot read (with the
  exception it raises), or a file that loads into a table. \<open>os.path.exists(p)\<close> is
  \<open>fs p \<noteq> None\<close>.
\<close>

datatype csv_file = EmptyFile | Unreadable pyexc | Loads dataframe

type_synonym filesystem = "string \<Rightarrow> csv_file option"

text \<open>\<open>pd.read_csv\<close> of an existing file; on an empty file pandas raises \<open>EmptyDataError\<close>.\<close>

fun pd_read_csv :: "csv_file \<Rightarrow> pyexc + dataframe" where
  "pd_read_csv EmptyFile = Inl (EmptyDataError, Library ''No columns to parse from file'')"
| "pd_read_csv (Unreadable e) = Inl e"
| "pd_read_csv (Loads df) = Inr df"

section \<open>The CSV validator\<close>

text \<open>
  \<open>[col for col in required_columns if col not in df.columns]\<close>, shared by
  \<open>check_and_load_csv\<close> and the inline checks of the box, histogram and 3D scripts.
\<close>

definition missing_columns :: "string list \<Rightarrow> dataframe \<Rightarrow> string list" where
  "missing_columns required_columns df =
     filter (\<lambda>col. col \<notin> set (columns df)) required_columns"

text \<open>
  \<open>check_and_load_csv\<close> of \<open>utils/common_utils.py\<close>. The \<open>try\<close> body reads the file and
  checks the columns; the handlers turn \<open>EmptyDataError\<close> into a \<open>ValueError\<close> and re-raise
  any other exception (also the body's own \<open>ValueError\<close>) as it is. The third parameter
  \<open>data_description\<close> only feeds the printed help and is left out, as is all printing.
\<close>

definition load_and_check :: "csv_file \<Rightarrow> string list \<Rightarrow> pyexc + dataframe" where
  "load_and_check f required_columns =
     (case pd_read_csv f of
        Inl e \<Rightarrow> Inl e
      | Inr df \<Rightarrow>
          (if missing_columns required_columns df \<noteq> []
           then Inl (ValueError, ColumnsMissing (missing_columns required_columns df))
           else Inr df))"

definition check_and_load_csv :: "filesystem \<Rightarrow> string \<Rightarrow> string list \<Rightarrow> pyexc + dataframe" where
  "check_and_load_csv fs csv_path required_columns =
     (case fs csv_path of
        None \<Rightarrow> Inl (FileNotFoundError, NoSuchCsv csv_path)
      | Some f \<Rightarrow>
          (case load_and_check f required_columns of
             Inl e \<Rightarrow>
               (if isinstance e EmptyDataError then Inl (ValueError, EmptyCsv csv_path)
                else Inl e)
           | Inr df \<Rightarrow> Inr df))"

section \<open>Chart functions\<close>

text \<open>
  Everything a chart function does between loading the table and returning is a call
  into matplotlib, seaborn, numpy or scipy. The world says what those calls do: \<open>draw\<close>
  gives the exception the plotting calls of a chart raise on a table, if any, and
  \<open>savefig\<close> the exception raised when the image is written, if any. A chart function
  yields what it returns (\<open>Inr\<close>) or the exception that leaves it (\<open>Inl\<close>), and the
  image files it has written.
\<close>

record world =
  files :: filesystem
  draw :: "string \<Rightarrow> dataframe \<Rightarrow> pyexc option"
  savefig :: "string \<Rightarrow> pyexc option"

type_synonym outcome = "(pyexc + bool) \<times> string list"

definition save_plot :: "world \<Rightarrow> string \<Rightarrow> (pyexc + unit) \<times> string list" where
  "save_plot w filename =
     (case savefig w filename of
        Some e \<Rightarrow> (Inl e, [])
      | None \<Rightarrow> (Inr (), [filename]))"

text \<open>
  The line, bar and scatter scripts: the \<open>try\<close> body calls \<open>check_and_load_csv\<close>, draws
  and saves; the only handler is \<open>except (FileNotFoundError, ValueError)\<close>, which returns
  \<open>False\<close>; after the \<open>try\<close> statement the function returns \<open>True\<close>.
\<close>

definition loader_chart_body ::
  "world \<Rightarrow> string \<Rightarrow> string list \<Rightarrow> string \<Rightarrow> (pyexc + unit) \<times> string list" where
  "loader_chart_body w csv_path required_columns png =
     (case check_and_load_csv (files w) csv_path required_columns of
        Inl e \<Rightarrow> (Inl e, [])
      | Inr df \<Rightarrow>
          (case draw w png df of
             Some e \<Rightarrow> (Inl e, [])
           | None \<Rightarrow> save_plot w png))"

definition loader_chart :: "world \<Rightarrow> string \<Rightarrow> string list \<Rightarrow> string \<Rightarrow> outcome" where
  "loader_chart w csv_path required_columns png =
     (case loader_chart_body w csv_path required_columns png of
        (Inl e, written) \<Rightarrow>
          (if isinstance e FileNotFoundError \<or> isinstance e ValueError
           then (Inr False, written)
           else (Inl e, written))
      | (Inr u, written) \<Rightarrow> (Inr True, written))"

definition create_basic_bar_chart :: "world \<Rightarrow> outcome" where
  "create_basic_bar_chart w =
     loader_chart w ''../data/basic_bar_data.csv'' [''category'', ''value'']
       ''../plot/basic_bar_chart.png''"

definition create_grouped_bar_chart :: "world \<Rightarrow> outcome" where
  "create_grouped_bar_chart w =
     loader_chart w ''../data/grouped_bar_data.csv''
       [''category'', ''group_a'', ''group_b'', ''group_c''] ''../plot/grouped_bar_chart.png''"

definition create_stacked_bar_chart :: "world \<Rightarrow> outcome" where
  "create_stacked_bar_chart w =
     loader_chart w ''../data/stacked_bar_data.csv''
       [''category'', ''part_a'', ''part_b'', ''part_c''] ''../plot/stacked_bar_chart.png''"

definition create_horizontal_bar_chart :: "world \<Rightarrow> outcome" where
  "create_horizontal_bar_chart w =
     loader_chart w ''../data/horizontal_bar_data.csv'' [''item'', ''score'']
       ''../plot/horizontal_bar_chart.png''"


text \<open>
  The box, histogram and 3D scripts check the file and the columns inline; their handlers
  are \<open>except FileNotFoundError\<close> and then \<open>except Exception\<close>, both returning \<open>False\<close>;
  \<open>return True\<close> is the last statement of the \<open>try\<close> body.
\<close>

definition inline_chart_body ::
  "world \<Rightarrow> string \<Rightarrow> string list \<Rightarrow> string \<Rightarrow> (pyexc + unit) \<times> string list" where
  "inline_chart_body w csv_path required_columns png =
     (case files w csv_path of
        None \<Rightarrow> (Inl (FileNotFoundError, NoSuchCsv csv_path), [])
      | Some f \<Rightarrow>
          (case pd_read_csv f of
             Inl e \<Rightarrow> (Inl e, [])
           | Inr data \<Rightarrow>
               (if missing_columns required_columns data \<noteq> []
                then (Inl (ValueError,
                        ColumnsMissingOf (missing_columns required_columns data) required_columns), [])
                else (case draw w png data of
                        Some e \<Rightarrow> (Inl e, [])
                      | None \<Rightarrow> save_plot w png))))"

definition inline_handlers :: "(pyexc + unit) \<times> string list \<Rightarrow> outcome" where
  "inline_handlers r =
     (case r of
        (Inl e, written) \<Rightarrow>
          (if isinstance e FileNotFoundError then (Inr False, written)
           else (Inr False, written))
      | (Inr u, written) \<Rightarrow> (Inr True, written))"

definition inline_chart :: "world \<Rightarrow> string \<Rightarrow> string list \<Rightarrow> string \<Rightarrow> outcome" where
  "inline_chart w csv_path required_columns png =
     inline_handlers (inline_chart_body w csv_path required_columns png)"

text \<open>\<open>os.path.join\<close> (posixpath), used by the inline scripts to build their paths.\<close>

definition os_path_join2 :: "string \<Rightarrow> string \<Rightarrow> string" where
  "os_path_join2 a b =
     (if b \<noteq> [] \<and> hd b = CHR ''/'' then b
      else if a = [] \<or> last a = CHR ''/'' then a @ b
      else a @ ''/'' @ b)"

definition os_path_join :: "string \<Rightarrow> string list \<Rightarrow> string" where
  "os_path_join a bs = foldl os_path_join2 a bs"

text \<open>
  \<open>create_3d_scatter_plot\<close>, one of the functions of this shape; \<open>script_dir\<close> is
  \<open>os.path.dirname(__file__)\<close>. (The surface, wireframe and contour functions have an
  inner \<open>try\<close> besides; the surface function is modelled after the grid reconstructor.)
\<close>

definition create_3d_scatter_plot :: "string \<Rightarrow> world \<Rightarrow> outcome" where
  "create_3d_scatter_plot script_dir w =
     inline_chart w (os_path_join script_dir [''..'', ''data'', ''3d_scatter_data.csv''])
       [''x'', ''y'', ''z'', ''group'']
       (os_path_join script_dir [''..'', ''plot'', ''3d_scatter_plot.png''])"

subsection \<open>The standalone basic histogram\<close>


definition code_common_utils_names :: "string list" where
  "code_common_utils_names =
     [''np'', ''pd'', ''plt'', ''sns'', ''rcParams'', ''warnings'',
      ''set_scientific_style'', ''get_color_palette'', ''save_plot'', ''generate_sample_data'',
      ''add_confidence_interval'', ''format_axes'']"

text \<open>
  The global names of \<open>histogram/code/basic_histogram.py\<close> when \<open>create_basic_histogram\<close>
  runs: its imports, the star import and its two functions. (No Python builtin is called
  \<open>stats\<close>.)
\<close>

definition basic_histogram_globals :: "string list \<Rightarrow> string list" where
  "basic_histogram_globals star_names =
     [''sys'', ''os''] @ star_names @
     [''np'', ''pd'', ''plt'', ''sns'', ''create_basic_histogram'', ''main'']"



section \<open>Scripts and exit codes\<close>

text \<open>
  A standalone script ends with \<open>success = main(); sys.exit(0 if success else 1)\<close>, where
  \<open>main\<close> returns what its chart function returns. An exception that leaves \<open>main\<close> ends
  the interpreter with a traceback and exit code 1.
\<close>

definition sys_exit_code :: "pyexc + bool \<Rightarrow> nat" where
  "sys_exit_code r = (case r of Inl e \<Rightarrow> 1 | Inr success \<Rightarrow> (if success then 0 else 1))"

definition standalone_script :: "(world \<Rightarrow> outcome) \<Rightarrow> world \<Rightarrow> nat \<times> string list" where
  "standalone_script chart w = (sys_exit_code (fst (chart w)), snd (chart w))"

text \<open>
  \<open>bar_chart/code/bar_chart.py\<close>, the script the orchestrator runs for bar charts. Its
  \<open>main\<close> calls the four chart functions in turn and counts those that return \<open>True\<close>;
  it prints the count and returns nothing. The script ends with a bare \<open>main()\<close>, so
  the interpreter exits with code 0 unless an exception leaves \<open>main\<close>.
\<close>

fun count_successes :: "(world \<Rightarrow> outcome) list \<Rightarrow> world \<Rightarrow> (pyexc + nat) \<times> string list" where
  "count_successes [] w = (Inr 0, [])"
| "count_successes (chart # charts) w =
     (case chart w of
        (Inl e, written) \<Rightarrow> (Inl e, written)
      | (Inr ok, written) \<Rightarrow>
          (case count_successes charts w of
             (Inl e, written') \<Rightarrow> (Inl e, written @ written')
           | (Inr n, written') \<Rightarrow> (Inr ((if ok then 1 else 0) + n), written @ written')))"

definition bar_chart_main :: "world \<Rightarrow> (pyexc + nat) \<times> string list" where
  "bar_chart_main w =
     count_successes
       [create_basic_bar_chart, create_grouped_bar_chart,
        create_stacked_bar_chart, create_horizontal_bar_chart] w"

definition bar_chart_script :: "world \<Rightarrow> nat \<times> string list" where
  "bar_chart_script w =
     (case bar_chart_main w of
        (Inl e, written) \<Rightarrow> (1, written)
      | (Inr success_count, written) \<Rightarrow> (0, written))"

section \<open>The grid reconstructor\<close>

text \<open>
  The same lines stand in the surface, wireframe and contour functions (standalone and
  in \<open>3d_plot.py\<close>):
  \<^verbatim>\<open>
  x_unique = np.unique(x); y_unique = np.unique(y)
  X, Y = np.meshgrid(x_unique, y_unique)
  Z = np.zeros_like(X)
  for i, xi in enumerate(x_unique):
      for j, yi in enumerate(y_unique):
          mask = (data['x'] == xi) & (data['y'] == yi)
          if mask.any(): Z[j, i] = data.loc[mask, 'z'].iloc[0]
          else:          Z[j, i] = np.mean(z)
  \<close>
  numpy keeps the dtype of an array through \<open>unique\<close>, \<open>meshgrid\<close> and \<open>zeros_like\<close>, and
  an assignment \<open>Z[j, i] = v\<close> converts \<open>v\<close> to the dtype of \<open>Z\<close>: into an \<open>int64\<close> array
  a float is stored without its fraction (rounded towards zero), and the assignment
  raises \<open>OverflowError\<close> when that integer does not fit into 64 bits. An exception ends
  the loops; in the scripts the handler of the enclosing \<open>try\<close> then gives the grid up.
  A two-dimensional array is its dtype and its rows.

  Floats are idealised as reals: \<open>np.mean\<close> is the exact mean and an \<open>int64\<close> value
  stored into a \<open>float64\<close> grid keeps its value. The \<open>float64\<close> results of the code are
  these values rounded (so they agree wherever sum and quotient are representable, as
  for the inputs evaluated below), and \<open>nan\<close> and infinities do not occur.
\<close>

datatype dtype = Int64 | Float64

fun dtype_of :: "ndarray \<Rightarrow> dtype" where
  "dtype_of (IntArr v) = Int64"
| "dtype_of (FloatArr v) = Float64"

fun tolist :: "ndarray \<Rightarrow> real list" where
  "tolist (IntArr v) = map of_int v"
| "tolist (FloatArr v) = v"

type_synonym ndarray2 = "dtype \<times> real list list"

fun np_unique :: "ndarray \<Rightarrow> ndarray" where
  "np_unique (IntArr v) = IntArr (sort (remdups v))"
| "np_unique (FloatArr v) = FloatArr (sort (remdups v))"

definition np_meshgrid :: "ndarray \<Rightarrow> ndarray \<Rightarrow> ndarray2 \<times> ndarray2" where
  "np_meshgrid xu yu =
     ((dtype_of xu, replicate (length (tolist yu)) (tolist xu)),
      (dtype_of yu, map (\<lambda>v. replicate (length (tolist xu)) v) (tolist yu)))"

definition np_zeros_like :: "ndarray2 \<Rightarrow> ndarray2" where
  "np_zeros_like a = (fst a, map (map (\<lambda>v. 0)) (snd a))"

text \<open>\<open>np.mean\<close> over the reals: the exact mean, which the code's \<open>float64\<close> mean rounds.
  (For an array without elements numpy yields \<open>nan\<close>; the loops never ask for the mean
  of an empty column, since an empty table has no cell.)\<close>

definition np_mean :: "ndarray \<Rightarrow> real" where
  "np_mean a = sum_list (tolist a) / real (length (tolist a))"

text \<open>The conversion an assignment into the grid makes: none for \<open>float64\<close>; for \<open>int64\<close>
  the integer part, which must lie between \<open>-2^63\<close> and \<open>2^63 - 1\<close>.\<close>

definition astype :: "dtype \<Rightarrow> real \<Rightarrow> pyexc + real" where
  "astype dt v =
     (case dt of
        Float64 \<Rightarrow> Inr v
      | Int64 \<Rightarrow>
          (let n = (if 0 \<le> v then \<lfloor>v\<rfloor> else \<lceil>v\<rceil>)
           in if - (2 ^ 63) \<le> n \<and> n < 2 ^ 63 then Inr (of_int n)
              else Inl (OverflowError, Library ''Python int too large to convert to C long'')))"

definition setitem :: "ndarray2 \<Rightarrow> nat \<Rightarrow> nat \<Rightarrow> real \<Rightarrow> pyexc + ndarray2" where
  "setitem Z j i v =
     (case astype (fst Z) v of
        Inl e \<Rightarrow> Inl e
      | Inr c \<Rightarrow> Inr (fst Z, (snd Z)[j := (snd Z ! j)[i := c]]))"

text \<open>A \<open>for\<close> loop whose body may raise: the first exception ends it.\<close>

fun fold_raise :: "('a \<Rightarrow> 's \<Rightarrow> pyexc + 's) \<Rightarrow> 'a list \<Rightarrow> 's \<Rightarrow> pyexc + 's" where
  "fold_raise f [] s = Inr s"
| "fold_raise f (a # as) s = (case f a s of Inl e \<Rightarrow> Inl e | Inr s' \<Rightarrow> fold_raise f as s')"

text \<open>
  The rows of the table the mask selects, in row order: \<open>mask.any()\<close> holds when there
  is one, and \<open>data.loc[mask, 'z'].iloc[0]\<close> is the \<open>z\<close> of the first.
\<close>

definition masked_rows :: "ndarray \<Rightarrow> ndarray \<Rightarrow> ndarray \<Rightarrow> real \<Rightarrow> real \<Rightarrow> real list" where
  "masked_rows x y z xi yi =
     map (\<lambda>(a, b, c). c)
       (filter (\<lambda>(a, b, c). a = xi \<and> b = yi) (zip (tolist x) (zip (tolist y) (tolist z))))"

definition cell_value :: "ndarray \<Rightarrow> ndarray \<Rightarrow> ndarray \<Rightarrow> real \<Rightarrow> real \<Rightarrow> real" where
  "cell_value x y z xi yi =
     (case masked_rows x y z xi yi of
        c # rest \<Rightarrow> c
      | [] \<Rightarrow> np_mean z)"

definition fill_column ::
  "ndarray \<Rightarrow> ndarray \<Rightarrow> ndarray \<Rightarrow> real list \<Rightarrow> nat \<times> real \<Rightarrow> ndarray2 \<Rightarrow> pyexc + ndarray2" where
  "fill_column x y z y_unique ixi Z =
     fold_raise
       (\<lambda>jyi Z'. setitem Z' (fst jyi) (fst ixi) (cell_value x y z (snd ixi) (snd jyi)))
       (enumerate 0 y_unique) Z"

definition reconstruct_grid :: "ndarray \<Rightarrow> ndarray \<Rightarrow> ndarray \<Rightarrow> pyexc + ndarray2" where
  "reconstruct_grid x y z =
     (let x_unique = np_unique x;
          y_unique = np_unique y;
          X = fst (np_meshgrid x_unique y_unique);
          Z = np_zeros_like X
      in fold_raise (fill_column x y z (tolist y_unique)) (enumerate 0 (tolist x_unique)) Z)"

text \<open>\<open>Z[j, i]\<close> of the reconstructed grid.\<close>

definition at2 :: "ndarray2 \<Rightarrow> nat \<Rightarrow> nat \<Rightarrow> real" where
  "at2 Z j i = snd Z ! j ! i"

section \<open>The 3D surface function\<close>







section \<open>The correlation coefficient\<close>

text \<open>
  Modelled from numpy's documentation: \<open>np.corrcoef(x, y)\<close> is numpy's, not the
  repository's. It is the matrix of the covariances of \<open>np.cov\<close> (deviations from the
  mean, summed and divided by \<open>N - 1\<close>), each divided by the roots of its two diagonal
  entries and clipped to the interval from \<open>-1\<close> to \<open>1\<close>. Floats are idealised as reals;
  an entry is \<open>nan\<close> (here \<open>None\<close>) when there are fewer than two points or one of the two
  variances is zero. Arrays of different lengths raise \<open>ValueError\<close>.
\<close>

definition np_cov :: "ndarray \<Rightarrow> ndarray \<Rightarrow> real" where
  "np_cov a b =
     sum_list (map2 (\<lambda>u v. (u - np_mean a) * (v - np_mean b)) (tolist a) (tolist b))
       / (real (length (tolist a)) - 1)"

definition np_clip :: "real \<Rightarrow> real \<Rightarrow> real \<Rightarrow> real" where
  "np_clip v lo hi = min (max v lo) hi"

definition corr_entry :: "ndarray \<Rightarrow> ndarray \<Rightarrow> real option" where
  "corr_entry a b =
     (if length (tolist a) < 2 \<or> np_cov a a = 0 \<or> np_cov b b = 0 then None
      else Some (np_clip (np_cov a b / sqrt (np_cov a a) / sqrt (np_cov b b)) (- 1) 1))"

definition np_corrcoef :: "ndarray \<Rightarrow> ndarray \<Rightarrow> pyexc + real option list list" where
  "np_corrcoef x y =
     (if length (tolist x) = length (tolist y)
      then Inr [[corr_entry x x, corr_entry x y], [corr_entry y x, corr_entry y y]]
      else Inl (ValueError, Library ''all the input array dimensions must match exactly''))"

text \<open>\<open>correlation = np.corrcoef(df['x'], df['y'])[0, 1]\<close> of \<open>create_basic_scatter_plot\<close>.\<close>

definition correlation :: "ndarray \<Rightarrow> ndarray \<Rightarrow> pyexc + real option" where
  "correlation x y =
     (case np_corrcoef x y of
        Inl e \<Rightarrow> Inl e
      | Inr c \<Rightarrow> Inr (c ! 0 ! 1))"

section \<open>The orchestrator\<close>















section \<open>Example worlds\<close>





text \<open>No CSV file exists at all.\<close>

definition no_files_world :: world where
  "no_files_world = \<lparr>files = (\<lambda>p. None), draw = (\<lambda>label df. None), savefig = (\<lambda>p. None)\<rparr>"

section \<open>Properties of the CSV validator\<close>

lemma missing_columns_set:
  "set (missing_columns required_columns df) = set required_columns - set (columns df)"
  by (auto simp: missing_columns_def)

lemma missing_columns_Nil_iff:
  "missing_columns required_columns df = [] \<longleftrightarrow> set required_columns \<subseteq> set (columns df)"
  by (auto simp: missing_columns_def filter_empty_conv)

text \<open>
  Claim C3, as stated, fails: the three outcomes it lists are not all there is. For an
  existing file that is empty, and an empty list of required columns, the path exists
  and no required column is missing, yet no table is returned: the function fails with
  the \<open>ValueError\<close> of the empty file.
\<close>

theorem empty_file_outside_three_outcomes:
  "check_and_load_csv (\<lambda>p. Some EmptyFile) ''data.csv'' [] = Inl (ValueError, EmptyCsv ''data.csv'')"
  by (simp add: check_and_load_csv_def load_and_check_def isinstance_def)

text \<open>
  Claim C3, amended. For every file system, path and list of required columns,
  \<open>check_and_load_csv\<close> fails with \<open>FileNotFoundError\<close> when nothing exists at the path;
  when the file loads into a table that lacks a required column it fails with a
  \<open>ValueError\<close> whose message lists the required columns absent from the loaded table,
  exactly those and in the order required; when the loaded table has every required
  column it returns that table unchanged; and when pandas cannot load the file it fails
  with a \<open>ValueError\<close> carrying the empty-file message if pandas raised its empty-data
  error, and with pandas' own exception otherwise.
\<close>

theorem check_and_load_csv_contract:
  "(fs p = None \<longrightarrow>
      check_and_load_csv fs p required = Inl (FileNotFoundError, NoSuchCsv p)) \<and>
   (fs p = Some f \<and> pd_read_csv f = Inr df \<and> \<not> set required \<subseteq> set (columns df) \<longrightarrow>
      check_and_load_csv fs p required
        = Inl (ValueError, ColumnsMissing (filter (\<lambda>c. c \<notin> set (columns df)) required)) \<and>
      set (filter (\<lambda>c. c \<notin> set (columns df)) required) = set required - set (columns df)) \<and>
   (fs p = Some f \<and> pd_read_csv f = Inr df \<and> set required \<subseteq> set (columns df) \<longrightarrow>
      check_and_load_csv fs p required = Inr df) \<and>
   (fs p = Some f \<and> pd_read_csv f = Inl e \<longrightarrow>
      check_and_load_csv fs p required
        = (if isinstance e EmptyDataError then Inl (ValueError, EmptyCsv p) else Inl e))"
proof (intro conjI impI)
  assume "fs p = None"
  then show "check_and_load_csv fs p required = Inl (FileNotFoundError, NoSuchCsv p)"
    by (simp add: check_and_load_csv_def)
next
  assume a: "fs p = Some f \<and> pd_read_csv f = Inr df \<and> \<not> set required \<subseteq> set (columns df)"
  then have "missing_columns required df \<noteq> []"
    by (simp add: missing_columns_Nil_iff)
  with a show "check_and_load_csv fs p required
        = Inl (ValueError, ColumnsMissing (filter (\<lambda>c. c \<notin> set (columns df)) required))"
    by (simp add: check_and_load_csv_def load_and_check_def isinstance_def)
       (simp add: missing_columns_def)
next
  show "set (filter (\<lambda>c. c \<notin> set (columns df)) required) = set required - set (columns df)"
    by auto
next
  assume a: "fs p = Some f \<and> pd_read_csv f = Inr df \<and> set required \<subseteq> set (columns df)"
  then have "missing_columns required df = []"
    by (simp add: missing_columns_Nil_iff)
  with a show "check_and_load_csv fs p required = Inr df"
    by (simp add: check_and_load_csv_def load_and_check_def)
next
  assume "fs p = Some f \<and> pd_read_csv f = Inl e"
  then show "check_and_load_csv fs p required
        = (if isinstance e EmptyDataError then Inl (ValueError, EmptyCsv p) else Inl e)"
    by (simp add: check_and_load_csv_def load_and_check_def)
qed

theorem check_and_load_csv_contract_witness:
  "check_and_load_csv (\<lambda>p. None) ''a.csv'' [''x'', ''y''] = Inl (FileNotFoundError, NoSuchCsv ''a.csv'') \<and>
   check_and_load_csv (\<lambda>p. Some (Loads [(''x'', Numeric (IntArr [1]))])) ''a.csv'' [''x'', ''y'', ''z'']
     = Inl (ValueError, ColumnsMissing [''y'', ''z'']) \<and>
   check_and_load_csv (\<lambda>p. Some (Loads [(''x'', Numeric (IntArr [1]))])) ''a.csv'' [''x'']
     = Inr [(''x'', Numeric (IntArr [1]))] \<and>
   check_and_load_csv (\<lambda>p. Some EmptyFile) ''a.csv'' [''x''] = Inl (ValueError, EmptyCsv ''a.csv'') \<and>
   check_and_load_csv (\<lambda>p. Some (Unreadable (KeyError, Library ''x''))) ''a.csv'' [''x'']
     = Inl (KeyError, Library ''x'')"
  using check_and_load_csv_contract [where fs = "\<lambda>p. None" and p = "''a.csv''" and required = "[''x'', ''y'']"]
    check_and_load_csv_contract [where fs = "\<lambda>p. Some (Loads [(''x'', Numeric (IntArr [1]))])"
      and p = "''a.csv''" and f = "Loads [(''x'', Numeric (IntArr [1]))]"
      and df = "[(''x'', Numeric (IntArr [1]))]" and required = "[''x'', ''y'', ''z'']"]
    check_and_load_csv_contract [where fs = "\<lambda>p. Some (Loads [(''x'', Numeric (IntArr [1]))])"
      and p = "''a.csv''" and f = "Loads [(''x'', Numeric (IntArr [1]))]"
      and df = "[(''x'', Numeric (IntArr [1]))]" and required = "[''x'']"]
    check_and_load_csv_contract [where fs = "\<lambda>p. Some EmptyFile" and p = "''a.csv''"
      and f = EmptyFile and e = "(EmptyDataError, Library ''No columns to parse from file'')"
      and required = "[''x'']"]
    check_and_load_csv_contract [where fs = "\<lambda>p. Some (Unreadable (KeyError, Library ''x''))"
      and p = "''a.csv''" and f = "Unreadable (KeyError, Library ''x'')"
      and e = "(KeyError, Library ''x'')" and required = "[''x'']"]
  by (simp add: columns_def isinstance_def)

text \<open>
  Claim C10. For a path that names an existing, completely empty file
  \<open>check_and_load_csv\<close> raises a \<open>ValueError\<close> (made from pandas' empty-data error, with the
  empty-file message), and a chart function built on it, whatever its path, columns and
  image, therefore returns \<open>False\<close> and writes no image, as it does for a missing column.
\<close>

theorem empty_csv_is_value_error:
  "files w p = Some EmptyFile \<Longrightarrow>
     check_and_load_csv (files w) p required = Inl (ValueError, EmptyCsv p) \<and>
     isinstance (ValueError, EmptyCsv p) ValueError \<and>
     loader_chart w p required png = (Inr False, [])"
  by (simp add: check_and_load_csv_def load_and_check_def isinstance_def
      loader_chart_def loader_chart_body_def)

theorem empty_csv_is_value_error_witness:
  "check_and_load_csv (\<lambda>p. Some EmptyFile) ''../data/basic_bar_data.csv'' [''category'', ''value'']
     = Inl (ValueError, EmptyCsv ''../data/basic_bar_data.csv'') \<and>
   create_basic_bar_chart \<lparr>files = (\<lambda>p. Some EmptyFile), draw = (\<lambda>l d. None), savefig = (\<lambda>p. None)\<rparr>
     = (Inr False, [])"
  using empty_csv_is_value_error [of "\<lparr>files = (\<lambda>p. Some EmptyFile), draw = (\<lambda>l d. None), savefig = (\<lambda>p. None)\<rparr>"
      "''../data/basic_bar_data.csv''" "[''category'', ''value'']" "''../plot/basic_bar_chart.png''"]
  by (simp add: create_basic_bar_chart_def)

section \<open>Properties of the chart functions\<close>


lemma stats_unbound_code_utils:
  "''stats'' \<notin> set (basic_histogram_globals code_common_utils_names)"
  by (simp add: basic_histogram_globals_def code_common_utils_names_def)




















section \<open>Properties of the scripts\<close>

text \<open>
  Claim C6, evaluated on the bar chart family script with every CSV file missing: each
  of its four chart functions returns \<open>False\<close> and no image is written, yet the script
  exits with code 0, because the script discards what \<open>main\<close> found; the standalone basic
  bar chart script exits with code 1 in the same world.
\<close>

theorem bar_chart_script_missing_csv_exits_0:
  "bar_chart_script no_files_world = (0, []) \<and>
   create_basic_bar_chart no_files_world = (Inr False, []) \<and>
   create_grouped_bar_chart no_files_world = (Inr False, []) \<and>
   create_stacked_bar_chart no_files_world = (Inr False, []) \<and>
   create_horizontal_bar_chart no_files_world = (Inr False, []) \<and>
   standalone_script create_basic_bar_chart no_files_world = (1, [])"
  by (simp add: bar_chart_script_def bar_chart_main_def create_basic_bar_chart_def
      create_grouped_bar_chart_def create_stacked_bar_chart_def create_horizontal_bar_chart_def
      loader_chart_def loader_chart_body_def check_and_load_csv_def isinstance_def
      no_files_world_def standalone_script_def sys_exit_code_def)

text \<open>
  For the standalone scripts the property holds: when the CSV file is missing, a script
  of either kind exits with code 1 and writes no image.
\<close>
theorem standalone_script_missing_csv:
  "files w p = None \<Longrightarrow>
     standalone_script (\<lambda>w. loader_chart w p required png) w = (1, []) \<and>
     standalone_script (\<lambda>w. inline_chart w p required png) w = (1, [])"
  by (simp add: standalone_script_def sys_exit_code_def loader_chart_def loader_chart_body_def
      check_and_load_csv_def isinstance_def inline_chart_def inline_chart_body_def inline_handlers_def)

theorem standalone_script_missing_csv_witness:
  "standalone_script create_basic_bar_chart no_files_world = (1, []) \<and>
   standalone_script (create_3d_scatter_plot []) no_files_world = (1, [])"
  using standalone_script_missing_csv [of no_files_world "''../data/basic_bar_data.csv''"
      "[''category'', ''value'']" "''../plot/basic_bar_chart.png''"]
    standalone_script_missing_csv [of no_files_world "os_path_join [] [''..'', ''data'', ''3d_scatter_data.csv'']"
      "[''x'', ''y'', ''z'', ''group'']" "os_path_join [] [''..'', ''plot'', ''3d_scatter_plot.png'']"]
  by (simp add: no_files_world_def create_basic_bar_chart_def create_3d_scatter_plot_def
      standalone_script_def)

section \<open>Properties of the grid reconstructor\<close>

text \<open>An assignment that succeeds changes one cell and leaves the dtype and the shape
  alone; into a \<open>float64\<close> grid every assignment succeeds.\<close>

lemma setitem_Inr:
  assumes "setitem Z j i v = Inr Z'"
  shows "fst Z' = fst Z" and "map length (snd Z') = map length (snd Z)"
    and "\<exists>c. astype (fst Z) v = Inr c \<and> snd Z' = (snd Z)[j := (snd Z ! j)[i := c]]"
proof -
  from assms obtain c where c: "astype (fst Z) v = Inr c"
    and Z': "Z' = (fst Z, (snd Z)[j := (snd Z ! j)[i := c]])"
    by (auto simp: setitem_def split: sum.splits)
  show "fst Z' = fst Z" using Z' by simp
  show "\<exists>c. astype (fst Z) v = Inr c \<and> snd Z' = (snd Z)[j := (snd Z ! j)[i := c]]"
    using c Z' by simp
  show "map length (snd Z') = map length (snd Z)"
  proof (cases "j < length (snd Z)")
    case True
    then have "(map length (snd Z))[j := length (snd Z ! j)] = map length (snd Z)"
      by (metis list_update_id nth_map)
    then show ?thesis using Z' by (simp add: map_update)
  next
    case False
    then have "(snd Z)[j := (snd Z ! j)[i := c]] = snd Z"
      by (simp add: list_update_beyond)
    then show ?thesis using Z' by simp
  qed
qed

lemma setitem_at2:
  assumes "setitem Z j i v = Inr Z'" and "j < length (snd Z)" and "i < length (snd Z ! j)"
  shows "astype (fst Z) v = Inr (at2 Z' j i)"
    and "\<not> (j' = j \<and> i' = i) \<Longrightarrow> at2 Z' j' i' = at2 Z j' i'"
proof -
  from setitem_Inr(3) [OF assms(1)] obtain c where c: "astype (fst Z) v = Inr c"
    and Z': "snd Z' = (snd Z)[j := (snd Z ! j)[i := c]]" by blast
  show "astype (fst Z) v = Inr (at2 Z' j i)"
    using c Z' assms(2,3) by (simp add: at2_def)
  show "\<not> (j' = j \<and> i' = i) \<Longrightarrow> at2 Z' j' i' = at2 Z j' i'"
    using Z' assms(2) by (cases "j' = j") (auto simp: at2_def nth_list_update)
qed

lemma setitem_float: "fst Z = Float64 \<Longrightarrow> \<exists>Z'. setitem Z j i v = Inr Z'"
  by (simp add: setitem_def astype_def)

lemma rows_preserved:
  assumes "map length (snd Z') = map length (snd Z)" and "\<forall>r \<in> set (snd Z). P (length r)"
  shows "\<forall>r \<in> set (snd Z'). P (length r)"
proof -
  from assms(1) have "length ` set (snd Z') = length ` set (snd Z)"
    by (metis set_map)
  with assms(2) show ?thesis
    by (metis (no_types, lifting) imageE imageI)
qed

text \<open>The inner loop over \<open>enumerate(y_unique)\<close>, started at any row index.\<close>

lemma fold_rows_shape:
  "fold_raise (\<lambda>jyi Z'. setitem Z' (fst jyi) i (g (snd jyi))) js Z = Inr R \<Longrightarrow>
   fst R = fst Z \<and> map length (snd R) = map length (snd Z)"
proof (induction js arbitrary: Z)
  case Nil
  then show ?case by simp
next
  case (Cons a js)
  then obtain Z1 where Z1: "setitem Z (fst a) i (g (snd a)) = Inr Z1"
    and rest: "fold_raise (\<lambda>jyi Z'. setitem Z' (fst jyi) i (g (snd jyi))) js Z1 = Inr R"
    by (auto split: sum.splits)
  from Cons.IH [OF rest] setitem_Inr(1,2) [OF Z1] show ?case by simp
qed

lemma fold_rows_at2:
  assumes "fold_raise (\<lambda>jyi Z'. setitem Z' (fst jyi) i (g (snd jyi))) (enumerate n ys) Z = Inr R"
    and "n + length ys \<le> length (snd Z)"
    and "\<forall>r \<in> set (snd Z). i < length r"
  shows "(n \<le> j' \<and> j' < n + length ys \<longrightarrow> astype (fst Z) (g (ys ! (j' - n))) = Inr (at2 R j' i)) \<and>
         (\<not> (n \<le> j' \<and> j' < n + length ys \<and> i' = i) \<longrightarrow> at2 R j' i' = at2 Z j' i')"
  using assms
proof (induction ys arbitrary: n Z j' i')
  case Nil
  then show ?case by auto
next
  case (Cons y ys)
  from Cons.prems(1) obtain Z1 where Z1: "setitem Z n i (g y) = Inr Z1"
    and rest: "fold_raise (\<lambda>jyi Z'. setitem Z' (fst jyi) i (g (snd jyi))) (enumerate (Suc n) ys) Z1 = Inr R"
    by (auto split: sum.splits)
  have sh: "fst Z1 = fst Z" "map length (snd Z1) = map length (snd Z)"
    using setitem_Inr(1,2) [OF Z1] by simp_all
  then have l: "length (snd Z1) = length (snd Z)" by (metis length_map)
  have len: "Suc n + length ys \<le> length (snd Z1)"
    using Cons.prems(2) l by simp
  have rows: "\<forall>r \<in> set (snd Z1). i < length r"
    using rows_preserved [OF sh(2), of "\<lambda>m. i < m"] Cons.prems(3) by simp
  have n: "n < length (snd Z)" using Cons.prems(2) by simp
  then have i: "i < length (snd Z ! n)" using Cons.prems(3) by simp
  note step = setitem_at2 [OF Z1 n i]
  note IH = Cons.IH [OF rest len rows]
  show ?case
  proof (intro conjI impI)
    assume a: "n \<le> j' \<and> j' < n + length (y # ys)"
    show "astype (fst Z) (g ((y # ys) ! (j' - n))) = Inr (at2 R j' i)"
    proof (cases "j' = n")
      case True
      then have "at2 R j' i = at2 Z1 j' i" using IH [of j' i] by simp
      with step(1) True show ?thesis by simp
    next
      case False
      with a have "Suc n \<le> j' \<and> j' < Suc n + length ys" by simp
      with IH [of j' i] sh(1) have "astype (fst Z) (g (ys ! (j' - Suc n))) = Inr (at2 R j' i)" by simp
      moreover have "(y # ys) ! (j' - n) = ys ! (j' - Suc n)"
        using False a by (simp add: nth_Cons' Suc_diff_le)
      ultimately show ?thesis by simp
    qed
  next
    assume a: "\<not> (n \<le> j' \<and> j' < n + length (y # ys) \<and> i' = i)"
    then have "\<not> (Suc n \<le> j' \<and> j' < Suc n + length ys \<and> i' = i)" by auto
    with IH [of j' i'] have "at2 R j' i' = at2 Z1 j' i'" by simp
    moreover have "\<not> (j' = n \<and> i' = i)" using a by auto
    ultimately show "at2 R j' i' = at2 Z j' i'" using step(2) by simp
  qed
qed

lemma fold_rows_float:
  "fst Z = Float64 \<Longrightarrow>
   \<exists>R. fold_raise (\<lambda>jyi Z'. setitem Z' (fst jyi) i (g (snd jyi))) js Z = Inr R"
proof (induction js arbitrary: Z)
  case Nil
  then show ?case by simp
next
  case (Cons a js)
  from setitem_float [OF Cons.prems] obtain Z1 where Z1: "setitem Z (fst a) i (g (snd a)) = Inr Z1"
    by blast
  then have "fst Z1 = Float64" using setitem_Inr(1) Cons.prems by simp
  from Cons.IH [OF this] Z1 show ?case by simp
qed

text \<open>One column of the grid, and the outer loop over \<open>enumerate(x_unique)\<close>.\<close>

lemma fill_column_shape:
  "fill_column x y z yu ixi Z = Inr R \<Longrightarrow>
   fst R = fst Z \<and> map length (snd R) = map length (snd Z)"
  unfolding fill_column_def by (rule fold_rows_shape)

lemma fill_column_at2:
  assumes "fill_column x y z yu ixi Z = Inr R"
    and "length yu \<le> length (snd Z)" and "\<forall>r \<in> set (snd Z). fst ixi < length r"
  shows "(j' < length yu \<longrightarrow>
            astype (fst Z) (cell_value x y z (snd ixi) (yu ! j')) = Inr (at2 R j' (fst ixi))) \<and>
         (\<not> (j' < length yu \<and> i' = fst ixi) \<longrightarrow> at2 R j' i' = at2 Z j' i')"
  using fold_rows_at2 [of "fst ixi" "\<lambda>yi. cell_value x y z (snd ixi) yi" 0 yu Z R j' i'] assms
  unfolding fill_column_def by simp

lemma fill_column_float:
  "fst Z = Float64 \<Longrightarrow> \<exists>R. fill_column x y z yu ixi Z = Inr R"
  unfolding fill_column_def by (rule fold_rows_float)

lemma fold_columns_shape:
  "fold_raise (fill_column x y z yu) is Z = Inr R \<Longrightarrow>
   fst R = fst Z \<and> map length (snd R) = map length (snd Z)"
proof (induction "is" arbitrary: Z)
  case Nil
  then show ?case by simp
next
  case (Cons a "is")
  then obtain Z1 where Z1: "fill_column x y z yu a Z = Inr Z1"
    and rest: "fold_raise (fill_column x y z yu) is Z1 = Inr R"
    by (auto split: sum.splits)
  from Cons.IH [OF rest] fill_column_shape [OF Z1] show ?case by simp
qed

lemma fold_columns_float:
  "fst Z = Float64 \<Longrightarrow> \<exists>R. fold_raise (fill_column x y z yu) is Z = Inr R"
proof (induction "is" arbitrary: Z)
  case Nil
  then show ?case by simp
next
  case (Cons a "is")
  from fill_column_float [OF Cons.prems] obtain Z1 where Z1: "fill_column x y z yu a Z = Inr Z1"
    by blast
  then have "fst Z1 = Float64" using fill_column_shape Cons.prems by simp
  from Cons.IH [OF this] Z1 show ?case by simp
qed

lemma fold_columns_at2:
  assumes "fold_raise (fill_column x y z yu) (enumerate n xu) Z = Inr R"
    and "length yu \<le> length (snd Z)"
    and "\<forall>r \<in> set (snd Z). n + length xu \<le> length r"
  shows "(j' < length yu \<and> n \<le> i' \<and> i' < n + length xu \<longrightarrow>
            astype (fst Z) (cell_value x y z (xu ! (i' - n)) (yu ! j')) = Inr (at2 R j' i')) \<and>
         (\<not> (j' < length yu \<and> n \<le> i' \<and> i' < n + length xu) \<longrightarrow> at2 R j' i' = at2 Z j' i')"
  using assms
proof (induction xu arbitrary: n Z)
  case Nil
  then show ?case by auto
next
  case (Cons a xu)
  from Cons.prems(1) obtain Z1 where Z1: "fill_column x y z yu (n, a) Z = Inr Z1"
    and rest: "fold_raise (fill_column x y z yu) (enumerate (Suc n) xu) Z1 = Inr R"
    by (auto split: sum.splits)
  have sh: "fst Z1 = fst Z" "map length (snd Z1) = map length (snd Z)"
    using fill_column_shape [OF Z1] by simp_all
  then have l: "length (snd Z1) = length (snd Z)" by (metis length_map)
  have rows: "\<forall>r \<in> set (snd Z1). Suc n + length xu \<le> length r"
    using rows_preserved [OF sh(2), of "\<lambda>m. Suc n + length xu \<le> m"] Cons.prems(3) by simp
  have rows0: "\<forall>r \<in> set (snd Z). fst (n, a) < length r"
    using Cons.prems(3) by auto
  note step = fill_column_at2 [OF Z1 Cons.prems(2) rows0, of j' i', simplified]
  have len: "length yu \<le> length (snd Z1)" using Cons.prems(2) l by simp
  note IH = Cons.IH [OF rest len rows]
  show ?case
  proof (intro conjI impI)
    assume b: "j' < length yu \<and> n \<le> i' \<and> i' < n + length (a # xu)"
    show "astype (fst Z) (cell_value x y z ((a # xu) ! (i' - n)) (yu ! j')) = Inr (at2 R j' i')"
    proof (cases "i' = n")
      case True
      then have "at2 R j' i' = at2 Z1 j' i'" using IH by simp
      with step True b show ?thesis by simp
    next
      case False
      with b have "j' < length yu \<and> Suc n \<le> i' \<and> i' < Suc n + length xu" by simp
      with IH sh(1) have "astype (fst Z) (cell_value x y z (xu ! (i' - Suc n)) (yu ! j')) = Inr (at2 R j' i')"
        by simp
      moreover have "(a # xu) ! (i' - n) = xu ! (i' - Suc n)"
        using False b by (simp add: nth_Cons' Suc_diff_le)
      ultimately show ?thesis by simp
    qed
  next
    assume b: "\<not> (j' < length yu \<and> n \<le> i' \<and> i' < n + length (a # xu))"
    then have "\<not> (j' < length yu \<and> Suc n \<le> i' \<and> i' < Suc n + length xu)" by auto
    with IH have "at2 R j' i' = at2 Z1 j' i'" by simp
    moreover have "\<not> (j' < length yu \<and> i' = n)" using b by auto
    ultimately show "at2 R j' i' = at2 Z j' i'" using step by simp
  qed
qed

text \<open>
  Every cell of a reconstructed grid: the value looked up for its coordinates,
  converted to the dtype of the \<open>x\<close> column. With a \<open>float64\<close> \<open>x\<close> column the
  reconstruction always yields a grid.
\<close>

lemma zeros_dtype:
  "fst (np_zeros_like (fst (np_meshgrid (np_unique x) (np_unique y)))) = dtype_of x"
  by (cases x) (simp_all add: np_zeros_like_def np_meshgrid_def)

lemma reconstruct_grid_dtype: "reconstruct_grid x y z = Inr Z \<Longrightarrow> fst Z = dtype_of x"
  using fold_columns_shape [of x y z "tolist (np_unique y)" "enumerate 0 (tolist (np_unique x))"
      "np_zeros_like (fst (np_meshgrid (np_unique x) (np_unique y)))" Z]
  by (simp add: reconstruct_grid_def Let_def zeros_dtype)

lemma reconstruct_grid_float:
  "dtype_of x = Float64 \<Longrightarrow> \<exists>Z. reconstruct_grid x y z = Inr Z"
  using fold_columns_float [of "np_zeros_like (fst (np_meshgrid (np_unique x) (np_unique y)))"]
  by (simp add: reconstruct_grid_def Let_def zeros_dtype)

lemma reconstruct_grid_cell:
  assumes "reconstruct_grid x y z = Inr Z"
    and "i < length (tolist (np_unique x))" and "j < length (tolist (np_unique y))"
  shows "astype (dtype_of x) (cell_value x y z (tolist (np_unique x) ! i) (tolist (np_unique y) ! j))
       = Inr (at2 Z j i)"
proof -
  let ?Z = "np_zeros_like (fst (np_meshgrid (np_unique x) (np_unique y)))"
  have 0: "fold_raise (fill_column x y z (tolist (np_unique y)))
             (enumerate 0 (tolist (np_unique x))) ?Z = Inr Z"
    using assms(1) by (simp add: reconstruct_grid_def Let_def)
  have 1: "length (tolist (np_unique y)) \<le> length (snd ?Z)"
    by (simp add: np_zeros_like_def np_meshgrid_def)
  have 2: "\<forall>r \<in> set (snd ?Z). 0 + length (tolist (np_unique x)) \<le> length r"
    by (auto simp: np_zeros_like_def np_meshgrid_def)
  show ?thesis
    using fold_columns_at2 [OF 0 1 2, of j i] assms(2,3) zeros_dtype [of x y] by simp
qed

text \<open>The value looked up: the first matching row's \<open>z\<close>, or the mean when none matches.\<close>

lemma filter_first:
  assumes "k < length rs" and "P (rs ! k)" and "\<forall>k' < k. \<not> P (rs ! k')"
  shows "\<exists>rest. filter P rs = rs ! k # rest"
proof -
  have "\<forall>r \<in> set (take k rs). \<not> P r"
  proof
    fix r assume "r \<in> set (take k rs)"
    then obtain m where "m < length (take k rs)" "take k rs ! m = r"
      by (auto simp: in_set_conv_nth)
    with assms(1,3) show "\<not> P r" by auto
  qed
  then have "filter P (take k rs) = []"
    by (simp add: filter_empty_conv)
  moreover have "rs = take k rs @ rs ! k # drop (Suc k) rs"
    using assms(1) by (simp add: id_take_nth_drop)
  ultimately have "filter P rs = rs ! k # filter P (drop (Suc k) rs)"
    using assms(2) by (metis append_Nil filter.simps(2) filter_append)
  then show ?thesis by blast
qed

lemma cell_value_first:
  assumes "length (tolist x) = length (tolist z)" and "length (tolist y) = length (tolist z)"
    and "k < length (tolist z)"
    and "tolist x ! k = xi" and "tolist y ! k = yi"
    and "\<forall>k' < k. \<not> (tolist x ! k' = xi \<and> tolist y ! k' = yi)"
  shows "cell_value x y z xi yi = tolist z ! k"
proof -
  let ?rs = "zip (tolist x) (zip (tolist y) (tolist z))"
  let ?P = "\<lambda>(a, b, c). a = xi \<and> b = yi"
  have len: "k < length ?rs" using assms(1-3) by simp
  have nth: "\<And>m. m \<le> k \<Longrightarrow> ?rs ! m = (tolist x ! m, tolist y ! m, tolist z ! m)"
    using assms(1-3) by simp
  have "\<exists>rest. filter ?P ?rs = ?rs ! k # rest"
  proof (rule filter_first [OF len])
    show "?P (?rs ! k)" using nth [of k] assms(4,5) by simp
    show "\<forall>k' < k. \<not> ?P (?rs ! k')" using nth assms(6) by simp
  qed
  then obtain rest where "filter ?P ?rs = ?rs ! k # rest" ..
  then show ?thesis
    using nth [of k] by (simp add: cell_value_def masked_rows_def)
qed

lemma cell_value_none:
  assumes "length (tolist x) = length (tolist z)" and "length (tolist y) = length (tolist z)"
    and "\<forall>k < length (tolist z). \<not> (tolist x ! k = xi \<and> tolist y ! k = yi)"
  shows "cell_value x y z xi yi = np_mean z"
proof -
  let ?rs = "zip (tolist x) (zip (tolist y) (tolist z))"
  have "\<forall>r \<in> set ?rs. \<not> (case r of (a, b, c) \<Rightarrow> a = xi \<and> b = yi)"
  proof
    fix r assume "r \<in> set ?rs"
    then obtain m where m: "m < length ?rs" "?rs ! m = r"
      by (auto simp: in_set_conv_nth)
    then have "r = (tolist x ! m, tolist y ! m, tolist z ! m)" using assms(1,2) by auto
    with m assms show "\<not> (case r of (a, b, c) \<Rightarrow> a = xi \<and> b = yi)" by auto
  qed
  then have "masked_rows x y z xi yi = []"
    by (simp add: masked_rows_def filter_empty_conv)
  then show ?thesis by (simp add: cell_value_def)
qed

text \<open>
  The exact-match rule with its tie-break, for columns of equal length: the cell for
  \<open>(x_unique[i], y_unique[j])\<close> holds the \<open>z\<close> of the first row with exactly that pair,
  converted to the dtype of the \<open>x\<close> column; when that dtype is \<open>float64\<close> it is that
  \<open>z\<close> itself.
\<close>

text \<open>
  The exact-match rule with its tie-break, for columns of equal length: in a
  reconstructed grid the cell for \<open>(x_unique[i], y_unique[j])\<close> holds the \<open>z\<close> of the
  first row with exactly that pair, converted to the dtype of the \<open>x\<close> column; when that
  dtype is \<open>float64\<close> the grid exists and the cell holds that \<open>z\<close> itself.
\<close>

theorem grid_first_match:
  assumes "length (tolist x) = length (tolist z)" and "length (tolist y) = length (tolist z)"
    and "i < length (tolist (np_unique x))" and "j < length (tolist (np_unique y))"
    and "k < length (tolist z)"
    and "tolist x ! k = tolist (np_unique x) ! i" and "tolist y ! k = tolist (np_unique y) ! j"
    and "\<forall>k' < k. \<not> (tolist x ! k' = tolist (np_unique x) ! i \<and> tolist y ! k' = tolist (np_unique y) ! j)"
  shows "(reconstruct_grid x y z = Inr Z \<longrightarrow>
            astype (dtype_of x) (tolist z ! k) = Inr (at2 Z j i)) \<and>
         (dtype_of x = Float64 \<longrightarrow>
            (\<exists>Z'. reconstruct_grid x y z = Inr Z' \<and> at2 Z' j i = tolist z ! k))"
proof (intro conjI impI)
  assume "reconstruct_grid x y z = Inr Z"
  from reconstruct_grid_cell [OF this assms(3,4)] cell_value_first [OF assms(1,2,5-8)]
  show "astype (dtype_of x) (tolist z ! k) = Inr (at2 Z j i)" by simp
next
  assume f: "dtype_of x = Float64"
  then obtain Z' where Z': "reconstruct_grid x y z = Inr Z'"
    using reconstruct_grid_float by blast
  from reconstruct_grid_cell [OF Z' assms(3,4)] cell_value_first [OF assms(1,2,5-8)] f
  have "at2 Z' j i = tolist z ! k" by (simp add: astype_def)
  with Z' show "\<exists>Z'. reconstruct_grid x y z = Inr Z' \<and> at2 Z' j i = tolist z ! k" by blast
qed

lemma float_grid_example:
  "reconstruct_grid (FloatArr [0, 1, 0, 1]) (FloatArr [0, 0, 1, 1])
     (FloatArr [1 / 2, 3 / 5, 7 / 10, 4 / 5]) = Inr (Float64, [[1 / 2, 3 / 5], [7 / 10, 4 / 5]])"
  by code_simp

theorem grid_first_match_witness:
  "reconstruct_grid (FloatArr [0, 1, 0, 1]) (FloatArr [0, 0, 1, 1])
     (FloatArr [1 / 2, 3 / 5, 7 / 10, 4 / 5]) = Inr (Float64, [[1 / 2, 3 / 5], [7 / 10, 4 / 5]]) \<and>
   astype Float64 (7 / 10) = Inr (at2 (Float64, [[1 / 2, 3 / 5], [7 / 10, 4 / 5]]) 1 0)"
  using grid_first_match [of "FloatArr [0, 1, 0, 1]" "FloatArr [1 / 2, 3 / 5, 7 / 10, 4 / 5]"
      "FloatArr [0, 0, 1, 1]" 0 1 2 "(Float64, [[1 / 2, 3 / 5], [7 / 10, 4 / 5]])"]
    float_grid_example
  by (simp add: less_Suc_eq numeral_2_eq_2)

text \<open>
  The fallback: in a reconstructed grid a cell whose pair occurs in no row holds the
  mean of the whole \<open>z\<close> column, converted to the dtype of the \<open>x\<close> column; when that
  dtype is \<open>float64\<close> the grid exists and the cell holds the mean itself.
\<close>

theorem grid_global_mean_fill:
  assumes "length (tolist x) = length (tolist z)" and "length (tolist y) = length (tolist z)"
    and "i < length (tolist (np_unique x))" and "j < length (tolist (np_unique y))"
    and "\<forall>k < length (tolist z). \<not> (tolist x ! k = tolist (np_unique x) ! i \<and> tolist y ! k = tolist (np_unique y) ! j)"
  shows "(reconstruct_grid x y z = Inr Z \<longrightarrow>
            astype (dtype_of x) (np_mean z) = Inr (at2 Z j i)) \<and>
         (dtype_of x = Float64 \<longrightarrow>
            (\<exists>Z'. reconstruct_grid x y z = Inr Z' \<and> at2 Z' j i = np_mean z))"
proof (intro conjI impI)
  assume "reconstruct_grid x y z = Inr Z"
  from reconstruct_grid_cell [OF this assms(3,4)] cell_value_none [OF assms(1,2,5)]
  show "astype (dtype_of x) (np_mean z) = Inr (at2 Z j i)" by simp
next
  assume f: "dtype_of x = Float64"
  then obtain Z' where Z': "reconstruct_grid x y z = Inr Z'"
    using reconstruct_grid_float by blast
  from reconstruct_grid_cell [OF Z' assms(3,4)] cell_value_none [OF assms(1,2,5)] f
  have "at2 Z' j i = np_mean z" by (simp add: astype_def)
  with Z' show "\<exists>Z'. reconstruct_grid x y z = Inr Z' \<and> at2 Z' j i = np_mean z" by blast
qed

lemma float_gap_example:
  "reconstruct_grid (FloatArr [0, 1]) (FloatArr [0, 1]) (FloatArr [3 / 2, 2])
     = Inr (Float64, [[3 / 2, 7 / 4], [7 / 4, 2]])"
  by code_simp

theorem grid_global_mean_fill_witness:
  "reconstruct_grid (FloatArr [0, 1]) (FloatArr [0, 1]) (FloatArr [3 / 2, 2])
     = Inr (Float64, [[3 / 2, 7 / 4], [7 / 4, 2]]) \<and>
   astype Float64 (np_mean (FloatArr [3 / 2, 2])) = Inr (at2 (Float64, [[3 / 2, 7 / 4], [7 / 4, 2]]) 0 1)"
  using grid_global_mean_fill [of "FloatArr [0, 1]" "FloatArr [3 / 2, 2]" "FloatArr [0, 1]" 1 0
      "(Float64, [[3 / 2, 7 / 4], [7 / 4, 2]])"]
    float_gap_example
  by (simp add: less_Suc_eq numeral_2_eq_2)

text \<open>
  Claim C1, evaluated on a fully populated two by two grid whose coordinates are written
  as integers, \<open>(0,0,0.5), (1,0,0.6), (0,1,0.7), (1,1,0.8)\<close>: the \<open>x\<close> column is \<open>int64\<close>,
  so is the grid, and every stored value has lost its fraction; the grid is all zero
  where the round trip asks for the four input values.
\<close>

theorem int_grid_round_trip_truncates:
  "reconstruct_grid (IntArr [0, 1, 0, 1]) (IntArr [0, 0, 1, 1])
     (FloatArr [1 / 2, 3 / 5, 7 / 10, 4 / 5]) = Inr (Int64, [[0, 0], [0, 0]])"
  by code_simp

text \<open>
  Claim C4, evaluated on the rows \<open>(0,0,1.5), (1,1,2.0)\<close> with integer coordinates: no
  row has the pair \<open>(1,0)\<close>, the mean of \<open>z\<close> is \<open>1.75\<close>, and the cell \<open>Z[0,1]\<close> holds \<open>1\<close>.
\<close>

theorem int_grid_mean_fill_truncates:
  "reconstruct_grid (IntArr [0, 1]) (IntArr [0, 1]) (FloatArr [3 / 2, 2])
     = Inr (Int64, [[1, 1], [1, 2]]) \<and>
   masked_rows (IntArr [0, 1]) (IntArr [0, 1]) (FloatArr [3 / 2, 2]) 1 0 = [] \<and>
   np_mean (FloatArr [3 / 2, 2]) = 7 / 4"
  by code_simp

text \<open>
  Claim C5, evaluated on the rows \<open>(0,0,0.5), (0,0,2.5)\<close> with integer coordinates: both
  rows match the only cell, the first has \<open>z = 0.5\<close>, and the cell holds \<open>0\<close>.
\<close>

theorem int_grid_first_row_truncates:
  "reconstruct_grid (IntArr [0, 0]) (IntArr [0, 0]) (FloatArr [1 / 2, 5 / 2]) = Inr (Int64, [[0]]) \<and>
   masked_rows (IntArr [0, 0]) (IntArr [0, 0]) (FloatArr [1 / 2, 5 / 2]) 0 0 = [1 / 2, 5 / 2]"
  by code_simp

section \<open>Properties of the correlation coefficient\<close>

text \<open>
  Claim C8. For the columns \<open>x = [1, 2, 3]\<close> and \<open>y = [2, 4, 6]\<close> the correlation
  coefficient the basic scatter plot script computes, \<open>np.corrcoef(x, y)[0, 1]\<close>, is a
  number (no \<open>nan\<close>, no exception) and equals 1.
\<close>

theorem correlation_of_doubled_line:
  "correlation (IntArr [1, 2, 3]) (IntArr [2, 4, 6]) = Inr (Some 1)"
  by (simp add: correlation_def np_corrcoef_def corr_entry_def np_cov_def np_mean_def np_clip_def)

section \<open>Properties of the orchestrator\<close>















end
